theory Spec2Isabelle
  imports Main
begin

section \<open>Library functions used by cmd/goproxy\<close>

text \<open>
  The program is a single file, \<^verbatim>\<open>cmd/goproxy/main.go\<close>. It is glue around Go's standard
  library, so the functions of \<^verbatim>\<open>strings\<close>, \<^verbatim>\<open>net/http\<close>, \<^verbatim>\<open>context\<close>, \<^verbatim>\<open>errors\<close>,
  \<^verbatim>\<open>path/filepath\<close> and \<^verbatim>\<open>os\<close> that it calls are modelled first, each after the library's
  own code. Go strings are byte strings; \<^typ>\<open>string\<close> is a list of 8-bit characters.
\<close>

subsection \<open>Package strings\<close>

definition HasPrefix :: "string \<Rightarrow> string \<Rightarrow> bool" where
  \<comment> \<open>\<^verbatim>\<open>len(s) >= len(prefix) && s[0:len(prefix)] == prefix\<close>\<close>
  "HasPrefix s pre = (length s \<ge> length pre \<and> take (length pre) s = pre)"

definition TrimPrefix :: "string \<Rightarrow> string \<Rightarrow> string" where
  \<comment> \<open>\<^verbatim>\<open>if HasPrefix(s, prefix) { return s[len(prefix):] }; return s\<close>\<close>
  "TrimPrefix s pre = (if HasPrefix s pre then drop (length pre) s else s)"

subsection \<open>Errors\<close>

text \<open>
  The error values that occur: the sentinel \<^verbatim>\<open>http.ErrServerClosed\<close>, the result of
  \<^verbatim>\<open>errors.New\<close>, an operating-system error number, the \<^verbatim>\<open>*PathError\<close> that package os
  returns, and an error that wraps another one (\<^verbatim>\<open>fmt.Errorf\<close> with \<^verbatim>\<open>%w\<close>).
\<close>

datatype error =
    ErrServerClosed
  | errorString string
  | Errno nat
  | PathError string string error
  | wrapError string error

fun errors_Is :: "error \<Rightarrow> error \<Rightarrow> bool" where
  \<comment> \<open>\<^verbatim>\<open>errors.Is\<close>: walks the chain of wrapped errors, comparing each with the target\<close>
  "errors_Is (PathError op path e) target =
     (PathError op path e = target \<or> errors_Is e target)"
| "errors_Is (wrapError msg e) target =
     (wrapError msg e = target \<or> errors_Is e target)"
| "errors_Is e target = (e = target)"

subsection \<open>Contexts, requests and handlers\<close>

text \<open>
  \<^verbatim>\<open>time.Duration\<close> is a signed count of nanoseconds. The program only compares it
  with zero and hands it on, so it is an integer here.
\<close>

type_synonym Duration = int

text \<open>
  A context is either one the server made for the connection (opaque, told apart by a
  number) or the \<^verbatim>\<open>timerCtx\<close> that \<^verbatim>\<open>context.WithTimeout\<close> derives from a parent.
\<close>

datatype Context = connCtx nat | timerCtx Context Duration

fun Parent :: "Context \<Rightarrow> Context option" where
  "Parent (timerCtx parent d) = Some parent"
| "Parent (connCtx n) = None"

text \<open>The two fields of \<^verbatim>\<open>url.URL\<close> that \<^verbatim>\<open>http.StripPrefix\<close> reads and writes.\<close>

record URL =
  Path :: string
  RawPath :: string

record Request =
  url :: URL
  ctx :: Context

text \<open>
  What serving a request does is recorded as a trace: a deadline context was derived,
  a context was cancelled, an error reply was written (\<^verbatim>\<open>http.Error(w, msg, code)\<close>).
  The engine behind the pipeline keeps a state of its own, of any type.
\<close>

datatype event =
    Derived Context
  | Cancelled Context
  | ErrorReply string nat

record 's world =
  trace :: "event list"
  engine :: 's

text \<open>A handler returns, or panics; a panic unwinds through the callers.\<close>

datatype 'a outcome = Returned 'a | Panicked 'a

type_synonym 's Handler = "Request \<Rightarrow> 's world \<Rightarrow> 's world outcome"

definition emit :: "event \<Rightarrow> 's world \<Rightarrow> 's world" where
  "emit e w = w\<lparr>trace := trace w @ [e]\<rparr>"

definition NotFound :: "'s Handler" where
  \<comment> \<open>\<^verbatim>\<open>http.NotFound(w, r)\<close> is \<^verbatim>\<open>Error(w, "404 page not found", StatusNotFound)\<close>\<close>
  "NotFound r w = Returned (emit (ErrorReply ''404 page not found'' 404) w)"

definition StripPrefix :: "string \<Rightarrow> 's Handler \<Rightarrow> 's Handler" where
  \<comment> \<open>\<^verbatim>\<open>http.StripPrefix\<close> (net/http, Go 1.16 and later): the request handed on is a copy
      of \<^verbatim>\<open>r\<close> with a fresh URL whose Path and RawPath are trimmed\<close>
  "StripPrefix pre h =
     (if pre = [] then h
      else (\<lambda>r w.
        let p = TrimPrefix (Path (url r)) pre;
            rp = TrimPrefix (RawPath (url r)) pre
        in if length p < length (Path (url r)) \<and>
              (RawPath (url r) = [] \<or> length rp < length (RawPath (url r)))
           then h (r\<lparr>url := (url r)\<lparr>Path := p, RawPath := rp\<rparr>\<rparr>) w
           else NotFound r w))"

definition WithTimeout :: "Context \<Rightarrow> Duration \<Rightarrow> 's world \<Rightarrow> Context \<times> 's world" where
  \<comment> \<open>\<^verbatim>\<open>context.WithTimeout(parent, d)\<close>: the new context is a child of \<^verbatim>\<open>parent\<close>\<close>
  "WithTimeout parent d w = (let c = timerCtx parent d in (c, emit (Derived c) w))"

definition cancel :: "Context \<Rightarrow> 's world \<Rightarrow> 's world" where
  \<comment> \<open>the \<^verbatim>\<open>CancelFunc\<close> returned with the context \<^verbatim>\<open>c\<close>\<close>
  "cancel c w = emit (Cancelled c) w"

section \<open>The request pipeline of main\<close>

text \<open>The command-line flags that the modelled part of \<^verbatim>\<open>main\<close> reads.\<close>

record flags =
  address :: string
  tlsCertFile :: string
  tlsKeyFile :: string
  pathPrefix :: string
  fetchTimeout :: Duration

definition fetchDeadline :: "Duration \<Rightarrow> 's Handler \<Rightarrow> 's Handler" where
  \<comment> \<open>the function literal of lines 55 to 61; \<^verbatim>\<open>cancel()\<close> is a plain statement after
      the call (no \<^verbatim>\<open>defer\<close>), so a panic of \<^verbatim>\<open>h\<close> skips it\<close>
  "fetchDeadline d h =
     (\<lambda>req w.
        case WithTimeout (ctx req) d w of
          (c, w1) \<Rightarrow>
            (case h (req\<lparr>ctx := c\<rparr>) w1 of
               Returned w2 \<Rightarrow> Returned (cancel c w2)
             | Panicked w2 \<Rightarrow> Panicked w2))"

definition pipeline :: "flags \<Rightarrow> 's Handler \<Rightarrow> 's Handler" where
  \<comment> \<open>lines 50 to 62: \<^verbatim>\<open>g\<close> is the engine's handler\<close>
  "pipeline f g =
     (let handler = g;
          handler = (if pathPrefix f \<noteq> [] then StripPrefix (pathPrefix f) handler
                     else handler);
          handler = (if fetchTimeout f > 0 then fetchDeadline (fetchTimeout f) handler
                     else handler)
      in handler)"

text \<open>
  A stand-in for the engine, used where a concrete handler is needed: it notes the
  request it was given in its own state and returns.
\<close>

definition recorder :: "(Request list) Handler" where
  "recorder r w = Returned (w\<lparr>engine := engine w @ [r]\<rparr>)"

section \<open>Starting the server\<close>

text \<open>
  \<^verbatim>\<open>main\<close> ends by blocking in one of the two listen calls of the server and looking at
  the error that comes back (lines 64 to 74). What the listener does is outside the
  program: it is a parameter, the error (or \<^verbatim>\<open>nil\<close>) that the call returns. The process
  is described by the listen calls it made and the lines it logged; a log line is kept
  as the format and the error given to \<^verbatim>\<open>log.Printf\<close>.
\<close>

datatype listen_call =
    ListenAndServe string
  | ListenAndServeTLS string string string

record process =
  calls :: "listen_call list"
  logged :: "(string \<times> error) list"

definition listen_mode :: "flags \<Rightarrow> listen_call" where
  \<comment> \<open>lines 66 to 70; the first argument of each call is \<^verbatim>\<open>server.Addr\<close>\<close>
  "listen_mode f =
     (if tlsCertFile f \<noteq> [] \<and> tlsKeyFile f \<noteq> []
      then ListenAndServeTLS (address f) (tlsCertFile f) (tlsKeyFile f)
      else ListenAndServe (address f))"

definition serve :: "flags \<Rightarrow> (listen_call \<Rightarrow> error option) \<Rightarrow> process" where
  \<comment> \<open>lines 64 to 75; the format string ends with a line feed\<close>
  "serve f listener =
     (let call = listen_mode f;
          err = listener call
      in \<lparr>calls = [call],
          logged =
            (case err of
               None \<Rightarrow> []
             | Some e \<Rightarrow>
                 if \<not> errors_Is e ErrServerClosed
                 then [(''http server error: %v'' @ [CHR 0x0A], e)]
                 else [])\<rparr>)"

section \<open>The file resolver httpDirFS\<close>

subsection \<open>Package path/filepath\<close>

text \<open>
  \<^verbatim>\<open>filepath.Separator\<close>, \<^verbatim>\<open>filepath.VolumeName\<close> and \<^verbatim>\<open>filepath.IsAbs\<close> depend on the
  platform the program is built for. A platform is given by the three of them; the
  resolver is modelled over any platform, and the two families Go has are defined below.
\<close>

record platform =
  Separator :: char
  VolumeName :: "string \<Rightarrow> string"
  IsAbs :: "string \<Rightarrow> bool"

definition backslash :: char where
  "backslash = CHR 0x5C"

definition FromSlash :: "platform \<Rightarrow> string \<Rightarrow> string" where
  \<comment> \<open>\<^verbatim>\<open>if Separator == '/' { return path }\<close>,
      \<^verbatim>\<open>return strings.ReplaceAll(path, "/", string(Separator))\<close>\<close>
  "FromSlash pf path =
     (if Separator pf = CHR ''/'' then path
      else map (\<lambda>c. if c = CHR ''/'' then Separator pf else c) path)"

text \<open>Unix: no volume names, and an absolute path starts with a slash.\<close>

definition unix :: platform where
  "unix = \<lparr>Separator = CHR ''/'', VolumeName = (\<lambda>path. []),
           IsAbs = (\<lambda>path. HasPrefix path ''/'')\<rparr>"

text \<open>
  Windows, after \<^verbatim>\<open>path_windows.go\<close> as it stood up to Go 1.19. A volume name is a
  drive letter with its colon, or the server and share part that a UNC path starts with;
  \<^verbatim>\<open>VolumeName(path)\<close> is \<^verbatim>\<open>path[:volumeNameLen(path)]\<close>.
\<close>

definition isSlash :: "char \<Rightarrow> bool" where
  "isSlash c = (c = backslash \<or> c = CHR ''/'')"

definition isLetter :: "char \<Rightarrow> bool" where
  \<comment> \<open>\<^verbatim>\<open>'a' <= c && c <= 'z' || 'A' <= c && c <= 'Z'\<close>\<close>
  "isLetter c =
     ((97::nat) \<le> of_char c \<and> (of_char c :: nat) \<le> 122 \<or>
      (65::nat) \<le> of_char c \<and> (of_char c :: nat) \<le> 90)"

fun shareEnd :: "string \<Rightarrow> nat" where
  \<comment> \<open>the inner loop: how far the share name runs, up to the next slash or the end\<close>
  "shareEnd [] = 0"
| "shareEnd (c # cs) = (if isSlash c then 0 else Suc (shareEnd cs))"

fun uncScan :: "string \<Rightarrow> nat \<Rightarrow> nat" where
  \<comment> \<open>the loop \<^verbatim>\<open>for n := 3; n < l-1; n++\<close>, on the rest of the path from index \<^verbatim>\<open>n\<close>\<close>
  "uncScan (c # d # rest) n =
     (if isSlash c then
        (if \<not> isSlash d then
           (if d = CHR ''.'' then 0 else Suc n + shareEnd (d # rest))
         else 0)
      else uncScan (d # rest) (Suc n))"
| "uncScan rest n = 0"

definition volumeNameLen :: "string \<Rightarrow> nat" where
  "volumeNameLen path =
     (if length path < 2 then 0
      else if path ! 1 = CHR '':'' \<and> isLetter (path ! 0) then 2
      else if length path \<ge> 5 \<and> isSlash (path ! 0) \<and> isSlash (path ! 1) \<and>
              \<not> isSlash (path ! 2) \<and> path ! 2 \<noteq> CHR ''.''
           then uncScan (drop 3 path) 3
      else 0)"

definition toUpper :: "char \<Rightarrow> char" where
  "toUpper c =
     (if (97::nat) \<le> of_char c \<and> (of_char c :: nat) \<le> 122
      then char_of (of_char c - (32::nat)) else c)"

definition reservedNames :: "string list" where
  "reservedNames =
     [''CON'', ''PRN'', ''AUX'', ''NUL'',
      ''COM1'', ''COM2'', ''COM3'', ''COM4'', ''COM5'', ''COM6'', ''COM7'', ''COM8'', ''COM9'',
      ''LPT1'', ''LPT2'', ''LPT3'', ''LPT4'', ''LPT5'', ''LPT6'', ''LPT7'', ''LPT8'', ''LPT9'']"

definition isReservedName :: "string \<Rightarrow> bool" where
  \<comment> \<open>\<^verbatim>\<open>strings.EqualFold\<close> against each reserved name; the names are ASCII letters and
      digits none of which has a fold partner outside ASCII, so folding is upper-casing\<close>
  "isReservedName path = (path \<noteq> [] \<and> map toUpper path \<in> set reservedNames)"

definition windows :: platform where
  "windows =
     \<lparr>Separator = backslash,
      VolumeName = (\<lambda>path. take (volumeNameLen path) path),
      IsAbs = (\<lambda>path.
        if isReservedName path then True
        else let l = volumeNameLen path in
          if l = 0 then False
          else let rest = drop l path in
            if rest = [] then False else isSlash (rest ! 0))\<rparr>"

subsection \<open>Package os\<close>

text \<open>
  The file system answers an open request for a path with an error number or with
  success. Every request made is noted with its flag, so that a call which does not touch
  the file system leaves the state as it was.
\<close>

datatype open_flag = O_RDONLY | O_WRONLY | O_RDWR

datatype File = File string

record filesystem =
  fails :: "string \<Rightarrow> error option"
  opened :: "(string \<times> open_flag) list"

definition OpenFile :: "string \<Rightarrow> open_flag \<Rightarrow> filesystem \<Rightarrow> (error + File) \<times> filesystem" where
  \<comment> \<open>a failure comes back as \<^verbatim>\<open>&PathError{Op: "open", Path: name, Err: e}\<close>\<close>
  "OpenFile name flag fs =
     ((case fails fs name of
         Some e \<Rightarrow> Inl (PathError ''open'' name e)
       | None \<Rightarrow> Inr (File name)),
      fs\<lparr>opened := opened fs @ [(name, flag)]\<rparr>)"

definition os_Open :: "string \<Rightarrow> filesystem \<Rightarrow> (error + File) \<times> filesystem" where
  \<comment> \<open>\<^verbatim>\<open>os.Open(name)\<close> is \<^verbatim>\<open>OpenFile(name, O_RDONLY, 0)\<close>\<close>
  "os_Open name fs = OpenFile name O_RDONLY fs"

subsection \<open>httpDirFS.Open\<close>

text \<open>
  A call of \<^verbatim>\<open>Open\<close> returns its pair of results, seen as a sum with the error on the
  left, or it panics with a run-time error.
\<close>

datatype 'a call = Panic string | Return 'a

definition driveStep :: "platform \<Rightarrow> string \<Rightarrow> (error + File) call + string" where
  \<comment> \<open>lines 80 to 87: the path handed on to line 88 (on the right), or the way the
      function is left before (on the left). \<^verbatim>\<open>name[1:]\<close> panics on the empty string.\<close>
  "driveStep pf name0 =
     (let name = FromSlash pf name0 in
      if Separator pf = backslash then
        (if length name < 1
         then Inl (Panic ''runtime error: slice bounds out of range [1:0]'')
         else
           let name = drop 1 name;
               volumeName = VolumeName pf name
           in if volumeName = [] \<or> HasPrefix volumeName [backslash, backslash]
              then Inl (Return (Inl (errorString ''file URL missing drive letter'')))
              else Inr name)
      else Inr name)"

definition Open :: "platform \<Rightarrow> string \<Rightarrow> filesystem \<Rightarrow> (error + File) call \<times> filesystem" where
  \<comment> \<open>lines 79 to 92\<close>
  "Open pf name0 fs =
     (case driveStep pf name0 of
        Inl left \<Rightarrow> (left, fs)
      | Inr name \<Rightarrow>
          if \<not> IsAbs pf name
          then (Return (Inl (errorString ''path is not absolute'')), fs)
          else (case os_Open name fs of (r, fs') \<Rightarrow> (Return r, fs')))"

section \<open>Concrete values\<close>

text \<open>Inputs at which the theorems below are evaluated.\<close>

definition conn_request :: "string \<Rightarrow> string \<Rightarrow> Request" where
  "conn_request p rp = \<lparr>url = \<lparr>Path = p, RawPath = rp\<rparr>, ctx = connCtx 0\<rparr>"

definition idle :: "(Request list) world" where
  "idle = \<lparr>trace = [], engine = []\<rparr>"

definition some_flags :: "string \<Rightarrow> Duration \<Rightarrow> flags" where
  "some_flags pre d =
     \<lparr>address = ''localhost:8080'', tlsCertFile = [], tlsKeyFile = [],
      pathPrefix = pre, fetchTimeout = d\<rparr>"

definition tls_flags :: "string \<Rightarrow> string \<Rightarrow> flags" where
  "tls_flags cert key =
     \<lparr>address = ''localhost:8080'', tlsCertFile = cert, tlsKeyFile = key,
      pathPrefix = [], fetchTimeout = 0\<rparr>"

definition disk :: filesystem where
  \<comment> \<open>one directory that can be opened on each platform, everything else is missing
      (error number 2, \<^verbatim>\<open>ENOENT\<close>)\<close>
  "disk =
     \<lparr>fails = (\<lambda>name.
        if name = ''/mods/example'' \<or>
           name = [CHR ''C'', CHR '':'', backslash] @ ''mods'' @ [backslash] @ ''example''
        then None else Some (Errno 2)),
      opened = []\<rparr>"

section \<open>Facts about the library functions\<close>

text \<open>
  \<^const>\<open>HasPrefix\<close> is the prefix relation on byte strings, and trimming a non-empty
  prefix shortens a string exactly when the prefix is there: the test that
  \<^const>\<open>StripPrefix\<close> makes on the lengths is a test of \<^const>\<open>HasPrefix\<close>.
\<close>

lemma HasPrefix_append: "HasPrefix s pre \<longleftrightarrow> (\<exists>rest. s = pre @ rest)"
proof
  assume "HasPrefix s pre"
  then have "take (length pre) s = pre" by (simp add: HasPrefix_def)
  then have "s = pre @ drop (length pre) s" by (metis append_take_drop_id)
  then show "\<exists>rest. s = pre @ rest" ..
next
  assume "\<exists>rest. s = pre @ rest"
  then show "HasPrefix s pre" by (auto simp: HasPrefix_def)
qed

lemma TrimPrefix_shorter:
  "pre \<noteq> [] \<Longrightarrow> length (TrimPrefix s pre) < length s \<longleftrightarrow> HasPrefix s pre"
  by (cases pre) (auto simp: TrimPrefix_def HasPrefix_def)

lemma TrimPrefix_restores: "HasPrefix s pre \<Longrightarrow> pre @ TrimPrefix s pre = s"
  by (auto simp: TrimPrefix_def HasPrefix_append)

lemma TrimPrefix_matching: "HasPrefix s pre \<Longrightarrow> TrimPrefix s pre = drop (length pre) s"
  by (simp add: TrimPrefix_def)

lemma TrimPrefix_empty: "pre \<noteq> [] \<Longrightarrow> TrimPrefix [] pre = []"
  by (simp add: TrimPrefix_def HasPrefix_def)

text \<open>
  The three ways through \<^const>\<open>StripPrefix\<close> with a non-empty prefix: the path does not
  start with it, the escaped path is set and does not start with it, or both match.
\<close>

lemma StripPrefix_mismatch:
  "pre \<noteq> [] \<Longrightarrow> \<not> HasPrefix (Path (url r)) pre \<Longrightarrow>
   StripPrefix pre h r w = Returned (emit (ErrorReply ''404 page not found'' 404) w)"
  by (simp add: StripPrefix_def Let_def TrimPrefix_shorter NotFound_def)

lemma StripPrefix_raw_mismatch:
  "pre \<noteq> [] \<Longrightarrow> RawPath (url r) \<noteq> [] \<Longrightarrow> \<not> HasPrefix (RawPath (url r)) pre \<Longrightarrow>
   StripPrefix pre h r w = Returned (emit (ErrorReply ''404 page not found'' 404) w)"
  by (simp add: StripPrefix_def Let_def TrimPrefix_shorter NotFound_def)

lemma StripPrefix_match:
  "pre \<noteq> [] \<Longrightarrow> HasPrefix (Path (url r)) pre \<Longrightarrow>
   RawPath (url r) = [] \<or> HasPrefix (RawPath (url r)) pre \<Longrightarrow>
   StripPrefix pre h r w =
     h (r\<lparr>url := (url r)\<lparr>Path := drop (length pre) (Path (url r)),
                           RawPath := TrimPrefix (RawPath (url r)) pre\<rparr>\<rparr>) w"
  by (auto simp: StripPrefix_def Let_def TrimPrefix_shorter TrimPrefix_matching TrimPrefix_empty)

text \<open>
  The deadline stage written out, and the two stages of \<^const>\<open>pipeline\<close> in the order in
  which \<^verbatim>\<open>main\<close> wraps them: the prefix stage is wrapped first, so it is the inner one.
\<close>

lemma fetchDeadline_unfold:
  "fetchDeadline d h req w =
     (case h (req\<lparr>ctx := timerCtx (ctx req) d\<rparr>) (emit (Derived (timerCtx (ctx req) d)) w) of
        Returned w2 \<Rightarrow> Returned (emit (Cancelled (timerCtx (ctx req) d)) w2)
      | Panicked w2 \<Rightarrow> Panicked w2)"
  by (simp add: fetchDeadline_def WithTimeout_def cancel_def Let_def split: outcome.splits)


lemma pipeline_stages:
  "pipeline f g =
     (if 0 < fetchTimeout f
      then fetchDeadline (fetchTimeout f)
             (if pathPrefix f \<noteq> [] then StripPrefix (pathPrefix f) g else g)
      else if pathPrefix f \<noteq> [] then StripPrefix (pathPrefix f) g else g)"
  by (simp add: pipeline_def Let_def)

text \<open>The first half of \<^const>\<open>Open\<close> case by case, and the second half after it.\<close>

lemma FromSlash_length: "length (FromSlash pf name) = length name"
  by (simp add: FromSlash_def)

lemma driveStep_backslash:
  "Separator pf = backslash \<Longrightarrow> name \<noteq> [] \<Longrightarrow>
   driveStep pf name =
     (if VolumeName pf (drop 1 (FromSlash pf name)) = [] \<or>
         HasPrefix (VolumeName pf (drop 1 (FromSlash pf name))) [backslash, backslash]
      then Inl (Return (Inl (errorString ''file URL missing drive letter'')))
      else Inr (drop 1 (FromSlash pf name)))"
  using FromSlash_length [of pf name]
  by (cases "FromSlash pf name") (simp_all add: driveStep_def Let_def)

lemma driveStep_empty:
  "Separator pf = backslash \<Longrightarrow>
   driveStep pf [] = Inl (Panic ''runtime error: slice bounds out of range [1:0]'')"
  by (simp add: driveStep_def FromSlash_def)

lemma driveStep_other:
  "Separator pf \<noteq> backslash \<Longrightarrow> driveStep pf name = Inr (FromSlash pf name)"
  by (simp add: driveStep_def)

lemma Open_after_driveStep:
  "driveStep pf name0 = Inr name \<Longrightarrow>
   Open pf name0 fs =
     (if \<not> IsAbs pf name then (Return (Inl (errorString ''path is not absolute'')), fs)
      else (Return (case fails fs name of
                      Some e \<Rightarrow> Inl (PathError ''open'' name e)
                    | None \<Rightarrow> Inr (File name)),
            fs\<lparr>opened := opened fs @ [(name, O_RDONLY)]\<rparr>))"
  by (simp add: Open_def os_Open_def OpenFile_def)

section \<open>Properties of the request pipeline\<close>

subsection \<open>Order of the two stages\<close>

text \<open>
  Claim C1 says that with a non-empty path prefix and a positive fetch timeout, prefix
  stripping, its not-found rejection included, runs before the deadline context is
  created, so that a rejected request takes no deadline. In \<^verbatim>\<open>main\<close> the deadline closure
  is wrapped around the prefix handler, and it runs first. With prefix \<^verbatim>\<open>/p\<close>, a timeout
  of 5 and the request path \<^verbatim>\<open>/x\<close>, the deadline context is derived, then the request is
  rejected, then the context is cancelled; the engine is not called.
\<close>

theorem rejected_after_deadline_setup:
  "pipeline (some_flags ''/p'' 5) recorder (conn_request ''/x'' []) idle =
     Returned \<lparr>trace = [Derived (timerCtx (connCtx 0) 5),
                        ErrorReply ''404 page not found'' 404,
                        Cancelled (timerCtx (connCtx 0) 5)],
               engine = []\<rparr>"
  by (simp add: pipeline_def some_flags_def conn_request_def idle_def fetchDeadline_def
      WithTimeout_def cancel_def emit_def StripPrefix_def TrimPrefix_def HasPrefix_def
      NotFound_def Let_def)

text \<open>
  Claim C1 as the code has it: with a non-empty path prefix and a positive fetch timeout,
  the deadline context is derived from the request's context first. Then the prefix stage
  runs under it: a request it accepts reaches the engine with the trimmed path and the
  deadline context, in a world where the deadline is already set up, and the context is
  cancelled when the engine returns; a request it rejects gets the not-found reply, and
  the deadline context it had taken is cancelled after that.
\<close>

theorem deadline_set_up_before_prefix_stage:
  assumes "pathPrefix f \<noteq> []" and "0 < fetchTimeout f"
  shows "pipeline f g req w =
     (let c = timerCtx (ctx req) (fetchTimeout f);
          w1 = emit (Derived c) w
      in if HasPrefix (Path (url req)) (pathPrefix f) \<and>
            (RawPath (url req) = [] \<or> HasPrefix (RawPath (url req)) (pathPrefix f))
         then (case g (req\<lparr>ctx := c,
                            url := (url req)\<lparr>Path := drop (length (pathPrefix f)) (Path (url req)),
                              RawPath := TrimPrefix (RawPath (url req)) (pathPrefix f)\<rparr>\<rparr>) w1 of
                 Returned w2 \<Rightarrow> Returned (emit (Cancelled c) w2)
               | Panicked w2 \<Rightarrow> Panicked w2)
         else Returned (emit (Cancelled c) (emit (ErrorReply ''404 page not found'' 404) w1)))"
proof (cases "HasPrefix (Path (url req)) (pathPrefix f) \<and>
            (RawPath (url req) = [] \<or> HasPrefix (RawPath (url req)) (pathPrefix f))")
  case True
  let ?r = "req\<lparr>ctx := timerCtx (ctx req) (fetchTimeout f)\<rparr>"
  from True assms(1) have "StripPrefix (pathPrefix f) g ?r w' =
     g (?r\<lparr>url := (url ?r)\<lparr>Path := drop (length (pathPrefix f)) (Path (url ?r)),
                   RawPath := TrimPrefix (RawPath (url ?r)) (pathPrefix f)\<rparr>\<rparr>) w'" for w'
    by (intro StripPrefix_match) auto
  with True assms show ?thesis
    by (simp add: pipeline_stages fetchDeadline_unfold Let_def)
next
  case False
  let ?r = "req\<lparr>ctx := timerCtx (ctx req) (fetchTimeout f)\<rparr>"
  from False assms(1) have "StripPrefix (pathPrefix f) g ?r w' =
     Returned (emit (ErrorReply ''404 page not found'' 404) w')" for w'
    using StripPrefix_mismatch [of "pathPrefix f" ?r g w']
      StripPrefix_raw_mismatch [of "pathPrefix f" ?r g w'] by auto
  with assms have "pipeline f g req w =
      Returned (emit (Cancelled (timerCtx (ctx req) (fetchTimeout f)))
        (emit (ErrorReply ''404 page not found'' 404)
          (emit (Derived (timerCtx (ctx req) (fetchTimeout f))) w)))"
    by (simp add: pipeline_stages fetchDeadline_unfold)
  then show ?thesis
    by (simp only: Let_def if_not_P [OF False])
qed

text \<open>An accepted request: prefix \<^verbatim>\<open>/p\<close>, timeout 5, path \<^verbatim>\<open>/p/x\<close>.\<close>

theorem deadline_set_up_before_prefix_stage_witness:
  "pathPrefix (some_flags ''/p'' 5) \<noteq> [] \<and> 0 < fetchTimeout (some_flags ''/p'' 5) \<and>
   pipeline (some_flags ''/p'' 5) recorder (conn_request ''/p/x'' []) idle =
     Returned \<lparr>trace = [Derived (timerCtx (connCtx 0) 5), Cancelled (timerCtx (connCtx 0) 5)],
               engine = [\<lparr>url = \<lparr>Path = ''/x'', RawPath = []\<rparr>,
                          ctx = timerCtx (connCtx 0) 5\<rparr>]\<rparr>"
  using deadline_set_up_before_prefix_stage
    [of "some_flags ''/p'' 5" recorder "conn_request ''/p/x'' []" idle]
  by (simp add: some_flags_def conn_request_def idle_def recorder_def emit_def
      TrimPrefix_def HasPrefix_def Let_def)

subsection \<open>The prefix stage\<close>

text \<open>
  Claim C2: when a non-empty path prefix is configured, a request whose path does not
  start with it gets the not-found reply, and the engine's handler is not invoked: the
  result is the same for every handler \<open>g\<close>, and the engine's state is the one before. With
  a positive fetch timeout the reply stands between the set-up and the cancellation of the
  deadline context.
\<close>

theorem mismatch_not_found:
  assumes "pathPrefix f \<noteq> []" and "\<not> HasPrefix (Path (url req)) (pathPrefix f)"
  shows "pipeline f g req w =
     Returned
       (if 0 < fetchTimeout f
        then w\<lparr>trace := trace w @
                 [Derived (timerCtx (ctx req) (fetchTimeout f)),
                  ErrorReply ''404 page not found'' 404,
                  Cancelled (timerCtx (ctx req) (fetchTimeout f))]\<rparr>
        else w\<lparr>trace := trace w @ [ErrorReply ''404 page not found'' 404]\<rparr>)"
proof -
  have "StripPrefix (pathPrefix f) g r w' =
      Returned (emit (ErrorReply ''404 page not found'' 404) w')"
    if "Path (url r) = Path (url req)" for r w'
    using assms that by (intro StripPrefix_mismatch) simp_all
  then show ?thesis
    using assms(1) by (simp add: pipeline_stages fetchDeadline_unfold emit_def)
qed

text \<open>Prefix \<^verbatim>\<open>/mod\<close>, no timeout, path \<^verbatim>\<open>/other/x\<close>.\<close>

theorem mismatch_not_found_witness:
  "pathPrefix (some_flags ''/mod'' 0) \<noteq> [] \<and>
   \<not> HasPrefix (Path (url (conn_request ''/other/x'' []))) (pathPrefix (some_flags ''/mod'' 0)) \<and>
   pipeline (some_flags ''/mod'' 0) recorder (conn_request ''/other/x'' []) idle =
     Returned \<lparr>trace = [ErrorReply ''404 page not found'' 404], engine = []\<rparr>"
  using mismatch_not_found
    [of "some_flags ''/mod'' 0" "conn_request ''/other/x'' []" recorder idle]
  by (simp add: some_flags_def conn_request_def idle_def HasPrefix_def)




subsection \<open>The deadline stage\<close>

text \<open>
  Claim C4: when the fetch timeout is zero or negative, the deadline stage is absent. The
  pipeline is the prefix stage alone (which is the engine's handler itself when no prefix
  is set), so it derives no context. For every request, either the pipeline is the
  not-found reply of the prefix stage whatever the handler, or there is a request with the
  context of the original one on which the pipeline is just the downstream handler.
\<close>

theorem no_deadline_without_timeout:
  assumes "fetchTimeout f \<le> 0"
  shows "pipeline f g = StripPrefix (pathPrefix f) g \<and>
     ((\<forall>h v. pipeline f h req v =
          Returned (emit (ErrorReply ''404 page not found'' 404) (v :: 's world))) \<or>
      (\<exists>r. ctx r = ctx req \<and> (\<forall>h v. pipeline f h req (v :: 's world) = h r v)))"
proof
  from assms show "pipeline f g = StripPrefix (pathPrefix f) g"
    by (simp add: pipeline_stages StripPrefix_def)
  show "(\<forall>h v. pipeline f h req v =
          Returned (emit (ErrorReply ''404 page not found'' 404) (v :: 's world))) \<or>
      (\<exists>r. ctx r = ctx req \<and> (\<forall>h v. pipeline f h req (v :: 's world) = h r v))"
  proof (cases "pathPrefix f = []")
    case True
    with assms have "\<forall>h v. pipeline f h req (v :: 's world) = h req v"
      by (simp add: pipeline_stages)
    then show ?thesis by blast
  next
    case prefix: False
    show ?thesis
    proof (cases "HasPrefix (Path (url req)) (pathPrefix f) \<and>
        (RawPath (url req) = [] \<or> HasPrefix (RawPath (url req)) (pathPrefix f))")
      case True
      let ?r = "req\<lparr>url := (url req)\<lparr>Path := drop (length (pathPrefix f)) (Path (url req)),
                 RawPath := TrimPrefix (RawPath (url req)) (pathPrefix f)\<rparr>\<rparr>"
      from True prefix assms have "\<forall>h v. pipeline f h req (v :: 's world) = h ?r v"
        by (simp add: pipeline_stages StripPrefix_match)
      moreover have "ctx ?r = ctx req" by simp
      ultimately show ?thesis by blast
    next
      case False
      with prefix assms have "\<forall>h v. pipeline f h req v =
          Returned (emit (ErrorReply ''404 page not found'' 404) (v :: 's world))"
        using StripPrefix_mismatch [of "pathPrefix f" req]
          StripPrefix_raw_mismatch [of "pathPrefix f" req]
        by (auto simp: pipeline_stages)
      then show ?thesis by blast
    qed
  qed
qed

text \<open>Timeout zero, prefix \<^verbatim>\<open>/p\<close>, path \<^verbatim>\<open>/p/x\<close>: no deadline event, the context is the connection's.\<close>

theorem no_deadline_without_timeout_witness:
  "fetchTimeout (some_flags ''/p'' 0) \<le> 0 \<and>
   pipeline (some_flags ''/p'' 0) recorder (conn_request ''/p/x'' []) idle =
     Returned \<lparr>trace = [], engine = [\<lparr>url = \<lparr>Path = ''/x'', RawPath = []\<rparr>, ctx = connCtx 0\<rparr>]\<rparr>"
  using no_deadline_without_timeout
    [of "some_flags ''/p'' 0" recorder "conn_request ''/p/x'' []"]
  by (simp add: pipeline_def some_flags_def conn_request_def idle_def recorder_def
      StripPrefix_def TrimPrefix_def HasPrefix_def Let_def)

text \<open>
  Claim C5: when the fetch timeout is positive, the handler downstream of the deadline
  stage (the prefix stage, or the engine when no prefix is set) is given the request with
  a context derived by \<^verbatim>\<open>context.WithTimeout\<close> from the context the request had, which
  stays its parent, bound by the fetch timeout. When that handler returns, the cancel
  function of the derived context is called: whenever the pipeline returns, the
  cancellation is the last thing that happened. A panic of the handler passes through
  without it.
\<close>

theorem deadline_derived_and_cancelled:
  assumes "0 < fetchTimeout f"
  shows "Parent (timerCtx (ctx req) (fetchTimeout f)) = Some (ctx req) \<and>
     pipeline f g req w =
       (case StripPrefix (pathPrefix f) g
               (req\<lparr>ctx := timerCtx (ctx req) (fetchTimeout f)\<rparr>)
               (emit (Derived (timerCtx (ctx req) (fetchTimeout f))) w) of
          Returned w2 \<Rightarrow> Returned (cancel (timerCtx (ctx req) (fetchTimeout f)) w2)
        | Panicked w2 \<Rightarrow> Panicked w2) \<and>
     (\<forall>w'. pipeline f g req w = Returned w' \<longrightarrow>
        trace w' \<noteq> [] \<and> last (trace w') = Cancelled (timerCtx (ctx req) (fetchTimeout f)))"
proof -
  have inner: "(if pathPrefix f \<noteq> [] then StripPrefix (pathPrefix f) g else g) =
      StripPrefix (pathPrefix f) g"
    by (simp add: StripPrefix_def)
  from assms have eq: "pipeline f g req w =
       (case StripPrefix (pathPrefix f) g
               (req\<lparr>ctx := timerCtx (ctx req) (fetchTimeout f)\<rparr>)
               (emit (Derived (timerCtx (ctx req) (fetchTimeout f))) w) of
          Returned w2 \<Rightarrow> Returned (cancel (timerCtx (ctx req) (fetchTimeout f)) w2)
        | Panicked w2 \<Rightarrow> Panicked w2)"
    by (simp only: pipeline_stages inner if_True fetchDeadline_unfold cancel_def)
  have "trace w' \<noteq> [] \<and> last (trace w') = Cancelled (timerCtx (ctx req) (fetchTimeout f))"
    if "pipeline f g req w = Returned w'" for w'
    using that unfolding eq by (auto simp: cancel_def emit_def split: outcome.splits)
  with eq show ?thesis by simp
qed

text \<open>Timeout 7 and no prefix.\<close>

theorem deadline_derived_and_cancelled_witness:
  "0 < fetchTimeout (some_flags [] 7) \<and>
   pipeline (some_flags [] 7) recorder (conn_request ''/m/@v/list'' []) idle =
     Returned \<lparr>trace = [Derived (timerCtx (connCtx 0) 7), Cancelled (timerCtx (connCtx 0) 7)],
               engine = [\<lparr>url = \<lparr>Path = ''/m/@v/list'', RawPath = []\<rparr>,
                          ctx = timerCtx (connCtx 0) 7\<rparr>]\<rparr>"
  using deadline_derived_and_cancelled
    [of "some_flags [] 7" "conn_request ''/m/@v/list'' []" recorder idle]
  by (simp add: some_flags_def conn_request_def idle_def recorder_def StripPrefix_def
      cancel_def emit_def)

section \<open>Properties of the server start\<close>

text \<open>
  Claim C8: the server is started with \<^verbatim>\<open>ListenAndServeTLS\<close> if and only if both the
  certificate path and the key path are non-empty, and with \<^verbatim>\<open>ListenAndServe\<close> (plain HTTP)
  in every other case, also when exactly one of the two is set. That call is the only one
  made, and whatever is logged is an error that the call returned: a partial TLS
  configuration is not reported.
\<close>

theorem tls_iff_cert_and_key:
  "(listen_mode f = ListenAndServeTLS (address f) (tlsCertFile f) (tlsKeyFile f)) =
     (tlsCertFile f \<noteq> [] \<and> tlsKeyFile f \<noteq> []) \<and>
   (listen_mode f = ListenAndServe (address f)) =
     (tlsCertFile f = [] \<or> tlsKeyFile f = []) \<and>
   calls (serve f listener) = [listen_mode f] \<and>
   (\<forall>entry \<in> set (logged (serve f listener)).
      \<exists>e. listener (listen_mode f) = Some e \<and> snd entry = e)"
  by (auto simp: listen_mode_def serve_def Let_def split: option.splits if_splits)

text \<open>The four combinations of certificate and key.\<close>

theorem tls_iff_cert_and_key_witness:
  "listen_mode (tls_flags ''cert.pem'' []) = ListenAndServe ''localhost:8080'' \<and>
   listen_mode (tls_flags [] ''key.pem'') = ListenAndServe ''localhost:8080'' \<and>
   listen_mode (tls_flags [] []) = ListenAndServe ''localhost:8080'' \<and>
   listen_mode (tls_flags ''cert.pem'' ''key.pem'') =
     ListenAndServeTLS ''localhost:8080'' ''cert.pem'' ''key.pem'' \<and>
   serve (tls_flags ''cert.pem'' []) (\<lambda>call. Some ErrServerClosed) =
     \<lparr>calls = [ListenAndServe ''localhost:8080''], logged = []\<rparr>"
  using tls_iff_cert_and_key [of "tls_flags ''cert.pem'' []" "\<lambda>call. Some ErrServerClosed"]
    tls_iff_cert_and_key [of "tls_flags [] ''key.pem''" "\<lambda>call. Some ErrServerClosed"]
    tls_iff_cert_and_key [of "tls_flags [] []" "\<lambda>call. Some ErrServerClosed"]
    tls_iff_cert_and_key [of "tls_flags ''cert.pem'' ''key.pem''" "\<lambda>call. Some ErrServerClosed"]
  by (simp add: tls_flags_def serve_def listen_mode_def)

text \<open>
  Claim C9: when the listen call returns, an error that \<^verbatim>\<open>errors.Is\<close> recognises as
  \<^verbatim>\<open>http.ErrServerClosed\<close> is not reported, and neither is \<^verbatim>\<open>nil\<close>; any other error is
  logged exactly once. In every case the listen call was made once: there is no retry.
\<close>

theorem serve_error_reported_once:
  "calls (serve f listener) = [listen_mode f] \<and>
   (listener (listen_mode f) = None \<longrightarrow> logged (serve f listener) = []) \<and>
   (\<forall>e. listener (listen_mode f) = Some e \<longrightarrow>
      (errors_Is e ErrServerClosed \<longrightarrow> logged (serve f listener) = []) \<and>
      (\<not> errors_Is e ErrServerClosed \<longrightarrow>
         logged (serve f listener) = [(''http server error: %v'' @ [CHR 0x0A], e)]))"
  by (simp add: serve_def Let_def)

text \<open>A clean shutdown, a wrapped one, and a failed bind.\<close>

theorem serve_error_reported_once_witness:
  "serve (tls_flags [] []) (\<lambda>call. Some ErrServerClosed) =
     \<lparr>calls = [ListenAndServe ''localhost:8080''], logged = []\<rparr> \<and>
   serve (tls_flags [] []) (\<lambda>call. Some (wrapError ''serve'' ErrServerClosed)) =
     \<lparr>calls = [ListenAndServe ''localhost:8080''], logged = []\<rparr> \<and>
   serve (tls_flags [] []) (\<lambda>call. Some (errorString ''listen tcp: address already in use'')) =
     \<lparr>calls = [ListenAndServe ''localhost:8080''],
      logged = [(''http server error: %v'' @ [CHR 0x0A],
                 errorString ''listen tcp: address already in use'')]\<rparr>"
  using serve_error_reported_once [of "tls_flags [] []" "\<lambda>call. Some ErrServerClosed"]
    serve_error_reported_once [of "tls_flags [] []"
      "\<lambda>call. Some (errorString ''listen tcp: address already in use'')"]
  by (simp add: serve_def listen_mode_def tls_flags_def)

section \<open>Properties of the file resolver\<close>

text \<open>
  The drive-letter step on any non-empty input: the first character is dropped, and the
  error is returned exactly when the volume name of the rest is empty or starts with two
  backslashes.
\<close>

lemma Open_missing_drive_letter:
  assumes "Separator pf = backslash" and "name \<noteq> []"
  shows "(fst (Open pf name fs) = Return (Inl (errorString ''file URL missing drive letter''))) =
       (VolumeName pf (drop 1 (FromSlash pf name)) = [] \<or>
        HasPrefix (VolumeName pf (drop 1 (FromSlash pf name))) [backslash, backslash]) \<and>
     (fst (Open pf name fs) = Return (Inl (errorString ''file URL missing drive letter'')) \<longrightarrow>
        snd (Open pf name fs) = fs)"
proof (cases "VolumeName pf (drop 1 (FromSlash pf name)) = [] \<or>
        HasPrefix (VolumeName pf (drop 1 (FromSlash pf name))) [backslash, backslash]")
  case True
  with assms have "Open pf name fs =
      (Return (Inl (errorString ''file URL missing drive letter'')), fs)"
    by (simp add: Open_def driveStep_backslash)
  with True show ?thesis by simp
next
  case False
  with assms have "driveStep pf name = Inr (drop 1 (FromSlash pf name))"
    by (simp add: driveStep_backslash)
  then have "fst (Open pf name fs) \<noteq> Return (Inl (errorString ''file URL missing drive letter''))"
    by (simp add: Open_after_driveStep split: option.splits)
  with False show ?thesis by simp
qed

lemma FromSlash_leading_slash:
  "Separator pf = backslash \<Longrightarrow> HasPrefix name ''/'' \<Longrightarrow>
   FromSlash pf name = backslash # drop 1 (FromSlash pf name)"
  by (cases name) (auto simp: FromSlash_def HasPrefix_def backslash_def)

text \<open>
  Claim C6: on a platform whose separator is the backslash, for every file-scheme input
  path, that is, a URL path, which starts with a slash (the file transport that \<^verbatim>\<open>main\<close>
  registers hands nothing else to \<^const>\<open>Open\<close>), the resolver converts the separators,
  strips the leading separator, and fails with the error ``file URL missing drive
  letter'' if and only if the volume name of the remaining path is empty or UNC-style
  (it starts with two backslashes). In that case the file system is left as it was: no
  open is attempted.
\<close>

theorem drive_letter_required:
  assumes "Separator pf = backslash" and "HasPrefix name ''/''"
  shows "FromSlash pf name = Separator pf # drop 1 (FromSlash pf name) \<and>
     (fst (Open pf name fs) = Return (Inl (errorString ''file URL missing drive letter''))) =
       (VolumeName pf (drop 1 (FromSlash pf name)) = [] \<or>
        HasPrefix (VolumeName pf (drop 1 (FromSlash pf name))) [backslash, backslash]) \<and>
     (fst (Open pf name fs) = Return (Inl (errorString ''file URL missing drive letter'')) \<longrightarrow>
        Open pf name fs = (Return (Inl (errorString ''file URL missing drive letter'')), fs) \<and>
        opened (snd (Open pf name fs)) = opened fs)"
proof -
  from assms(2) have "name \<noteq> []"
    by (auto simp: HasPrefix_def)
  with assms(1) have general:
    "(fst (Open pf name fs) = Return (Inl (errorString ''file URL missing drive letter''))) =
       (VolumeName pf (drop 1 (FromSlash pf name)) = [] \<or>
        HasPrefix (VolumeName pf (drop 1 (FromSlash pf name))) [backslash, backslash])"
    and untouched:
    "fst (Open pf name fs) = Return (Inl (errorString ''file URL missing drive letter'')) \<longrightarrow>
        snd (Open pf name fs) = fs"
    using Open_missing_drive_letter [of pf name fs] by blast+
  from assms have "FromSlash pf name = Separator pf # drop 1 (FromSlash pf name)"
    using FromSlash_leading_slash [of pf name] by simp
  moreover have "Open pf name fs = (Return (Inl (errorString ''file URL missing drive letter'')), fs) \<and>
        opened (snd (Open pf name fs)) = opened fs"
    if "fst (Open pf name fs) = Return (Inl (errorString ''file URL missing drive letter''))"
    using that untouched by (cases "Open pf name fs") simp
  ultimately show ?thesis using general by blast
qed

text \<open>
  On Windows: \<^verbatim>\<open>/mods/example\<close> has no drive letter and is refused without an open;
  \<^verbatim>\<open>/C:/mods/example\<close> has one and the directory is opened.
\<close>

theorem drive_letter_required_witness:
  "Separator windows = backslash \<and> HasPrefix ''/mods/example'' ''/'' \<and>
   VolumeName windows (drop 1 (FromSlash windows ''/mods/example'')) = [] \<and>
   Open windows ''/mods/example'' disk =
     (Return (Inl (errorString ''file URL missing drive letter'')), disk) \<and>
   HasPrefix ''/C:/mods/example'' ''/'' \<and>
   VolumeName windows (drop 1 (FromSlash windows ''/C:/mods/example'')) = ''C:'' \<and>
   fst (Open windows ''/C:/mods/example'' disk) =
     Return (Inr (File ([CHR ''C'', CHR '':'', CHR 0x5C] @ ''mods'' @ [CHR 0x5C] @ ''example'')))"
  using drive_letter_required [of windows "''/mods/example''" disk]
    drive_letter_required [of windows "''/C:/mods/example''" disk]
  by (simp add: Open_def driveStep_def windows_def FromSlash_def backslash_def
      volumeNameLen_def isLetter_def isSlash_def HasPrefix_def isReservedName_def
      reservedNames_def toUpper_def os_Open_def OpenFile_def disk_def)

text \<open>
  Claim C7: on every platform, once separator translation and, where it applies, the
  drive-letter step have handed a path on, a path that is not absolute makes \<^const>\<open>Open\<close>
  return the error ``path is not absolute'' with the file system untouched. An absolute
  path is opened once, read-only, with \<^verbatim>\<open>os.Open\<close>, and \<^const>\<open>Open\<close> returns exactly what
  \<^verbatim>\<open>os.Open\<close> returned: on failure the \<^verbatim>\<open>*PathError\<close> of the file system, as it is.
\<close>

theorem absolute_or_rejected:
  assumes "driveStep pf name0 = Inr name"
  shows "(\<not> IsAbs pf name \<longrightarrow>
        Open pf name0 fs = (Return (Inl (errorString ''path is not absolute'')), fs)) \<and>
     (IsAbs pf name \<longrightarrow>
        Open pf name0 fs = (Return (fst (os_Open name fs)), snd (os_Open name fs)) \<and>
        opened (snd (Open pf name0 fs)) = opened fs @ [(name, O_RDONLY)] \<and>
        (\<forall>e. fails fs name = Some e \<longrightarrow>
           fst (Open pf name0 fs) = Return (Inl (PathError ''open'' name e))) \<and>
        (fails fs name = None \<longrightarrow> fst (Open pf name0 fs) = Return (Inr (File name))))"
  using assms by (simp add: Open_after_driveStep os_Open_def OpenFile_def)

text \<open>A drive-relative path on Windows; a missing file and a relative path on Unix.\<close>

theorem absolute_or_rejected_witness:
  "driveStep windows ''/C:mods'' = Inr ''C:mods'' \<and>
   Open windows ''/C:mods'' disk = (Return (Inl (errorString ''path is not absolute'')), disk) \<and>
   driveStep unix ''/nope'' = Inr ''/nope'' \<and>
   Open unix ''/nope'' disk =
     (Return (Inl (PathError ''open'' ''/nope'' (Errno 2))),
      disk\<lparr>opened := [(''/nope'', O_RDONLY)]\<rparr>) \<and>
   driveStep unix ''mods/example'' = Inr ''mods/example'' \<and>
   Open unix ''mods/example'' disk = (Return (Inl (errorString ''path is not absolute'')), disk)"
proof -
  have w: "driveStep windows ''/C:mods'' = Inr ''C:mods''"
    by (simp add: driveStep_def windows_def FromSlash_def backslash_def
        volumeNameLen_def isLetter_def isSlash_def HasPrefix_def)
  have u: "driveStep unix ''/nope'' = Inr ''/nope''"
    by (simp add: driveStep_def unix_def FromSlash_def backslash_def)
  have r: "driveStep unix ''mods/example'' = Inr ''mods/example''"
    by (simp add: driveStep_def unix_def FromSlash_def backslash_def)
  have "\<not> IsAbs windows ''C:mods''"
    by (simp add: windows_def volumeNameLen_def isLetter_def isSlash_def isReservedName_def
        reservedNames_def toUpper_def backslash_def)
  moreover have "IsAbs unix ''/nope''" and "\<not> IsAbs unix ''mods/example''"
    by (simp_all add: unix_def HasPrefix_def)
  moreover have "fails disk ''/nope'' = Some (Errno 2)" and "opened disk = []"
    by (simp_all add: disk_def)
  ultimately show ?thesis
    using w u r absolute_or_rejected [OF w, of disk] absolute_or_rejected [OF u, of disk]
      absolute_or_rejected [OF r, of disk]
    by (simp add: os_Open_def OpenFile_def)
qed

text \<open>
  Claim C10: on a platform whose separator is the backslash, the first character of the
  translated path is sliced off before any check. On the empty input the slice is out of
  range and \<^const>\<open>Open\<close> panics instead of returning an error; \<^const>\<open>Open\<close> returns
  exactly on the non-empty inputs, and the drive-letter error is returned only for inputs
  of length at least one.
\<close>

theorem empty_path_panics:
  assumes "Separator pf = backslash"
  shows "Open pf [] fs = (Panic ''runtime error: slice bounds out of range [1:0]'', fs) \<and>
     (\<exists>r. fst (Open pf name fs) = Return r) = (name \<noteq> []) \<and>
     (fst (Open pf name fs) = Return (Inl (errorString ''file URL missing drive letter'')) \<longrightarrow>
        1 \<le> length name)"
proof -
  from assms have empty: "Open pf [] fs =
      (Panic ''runtime error: slice bounds out of range [1:0]'', fs)"
    by (simp add: Open_def driveStep_empty)
  have "\<exists>r. fst (Open pf name fs) = Return r" if "name \<noteq> []"
    using assms that
    by (auto simp: Open_def driveStep_backslash os_Open_def OpenFile_def)
  with empty have total: "(\<exists>r. fst (Open pf name fs) = Return r) = (name \<noteq> [])"
    by (cases "name = []") auto
  have "1 \<le> length name"
    if "fst (Open pf name fs) = Return (Inl (errorString ''file URL missing drive letter''))"
    using that empty by (cases name) auto
  with empty total show ?thesis by blast
qed

text \<open>On Windows: the empty path, and the path that is only a slash.\<close>

theorem empty_path_panics_witness:
  "Separator windows = backslash \<and>
   Open windows [] disk = (Panic ''runtime error: slice bounds out of range [1:0]'', disk) \<and>
   fst (Open windows ''/'' disk) = Return (Inl (errorString ''file URL missing drive letter''))"
  using empty_path_panics [of windows disk "''/''"]
  by (simp add: Open_def driveStep_def windows_def FromSlash_def backslash_def volumeNameLen_def)

end
